theory Spec2Isabelle
  imports Complex_Main "HOL-Library.Monad_Syntax"
begin

section \<open>The joystick teleoperation node of pb\_teleop\_twist\_joy\<close>

text \<open>
  A shallow embedding of \<^verbatim>\<open>src/pb_teleop_twist_joy.cpp\<close>: the free function
  \<^verbatim>\<open>getVal\<close> and the member functions \<^verbatim>\<open>joyCallback\<close>, \<^verbatim>\<open>sendCmdVelMsg\<close>,
  \<^verbatim>\<open>fillCmdVelMsg\<close>, \<^verbatim>\<open>fillJointStateMsg\<close>, \<^verbatim>\<open>sendGoalPoseAction\<close> and
  \<^verbatim>\<open>sendZeroCommand\<close> of \<^verbatim>\<open>TeleopTwistJoyNode\<close>.

  Conventions of the model.
  \<^item> \<^verbatim>\<open>double\<close> and \<^verbatim>\<open>float\<close> values are real numbers: rounding is not modelled.
  \<^item> \<^verbatim>\<open>int64_t\<close> parameters and \<^verbatim>\<open>int32\<close> button values are integers (no arithmetic
    is done on them, they are only compared); \<^verbatim>\<open>static_cast<int>\<close> of a container size
    is modelled with its 32-bit truncation.
  \<^item> A time point is its count of nanoseconds, as in \<^verbatim>\<open>rclcpp::Time\<close>. The node clock is
    an input of each callback. The static initialiser of \<^verbatim>\<open>last_time\<close> in
    \<^verbatim>\<open>fillJointStateMsg\<close> has a reading of its own, since the time between it and the
    next read is multiplied into the accumulators; the other \<^verbatim>\<open>this->now()\<close> calls of a
    callback share one reading (for the two adjacent reads of \<^verbatim>\<open>sendGoalPoseAction\<close> the
    branch taken could differ only if a quarter of a second passed between them).
  \<^item> Reading a \<^verbatim>\<open>std::vector\<close> outside its bounds is undefined behaviour. Every function
    that can reach such a read returns an \<open>option\<close>, and \<open>None\<close> stands for it.
  \<^item> Publishing, logging and the calls to the action client are recorded, in order, as a
    list of events returned by the callback.
  \<^item> The member \<^verbatim>\<open>sent_disable_msg_\<close> and the function-local statics live in an explicit
    state record that a callback takes and returns.
\<close>

subsection \<open>Messages\<close>

text \<open>\<^verbatim>\<open>sensor_msgs::msg::Joy\<close>: \<^verbatim>\<open>float32[] axes\<close>, \<^verbatim>\<open>int32[] buttons\<close>.\<close>

record joy =
  axes :: "real list"
  buttons :: "int list"

text \<open>\<^verbatim>\<open>geometry_msgs::msg::Twist\<close>.\<close>

record twist =
  linear_x :: real
  linear_y :: real
  linear_z :: real
  angular_x :: real
  angular_y :: real
  angular_z :: real

text \<open>\<^verbatim>\<open>geometry_msgs::msg::TwistStamped\<close>, with the two header fields the node sets.\<close>

record twist_stamped =
  ts_stamp :: int
  ts_frame_id :: string
  ts_twist :: twist

text \<open>\<^verbatim>\<open>sensor_msgs::msg::JointState\<close>; velocity and effort stay empty.\<close>

record joint_state =
  js_stamp :: int
  js_name :: "string list"
  js_position :: "real list"

text \<open>\<^verbatim>\<open>geometry_msgs::msg::PoseStamped\<close>.\<close>

record pose_stamped =
  ps_stamp :: int
  ps_frame_id :: string
  position_x :: real
  position_y :: real
  position_z :: real
  orientation_x :: real
  orientation_y :: real
  orientation_z :: real
  orientation_w :: real

text \<open>A default-constructed twist has all six fields zero.\<close>

definition zero_twist :: twist where
  "zero_twist = \<lparr>linear_x = 0, linear_y = 0, linear_z = 0,
                 angular_x = 0, angular_y = 0, angular_z = 0\<rparr>"

text \<open>A default-constructed pose: empty header, origin, identity quaternion.\<close>

definition default_pose :: pose_stamped where
  "default_pose = \<lparr>ps_stamp = 0, ps_frame_id = [], position_x = 0, position_y = 0,
                   position_z = 0, orientation_x = 0, orientation_y = 0, orientation_z = 0,
                   orientation_w = 1\<rparr>"

subsection \<open>Node parameters, node state, environment, effects\<close>

text \<open>
  The members set once by the constructor. \<^verbatim>\<open>scale_chassis_map_\<close> and
  \<^verbatim>\<open>scale_gimbal_map_\<close> are maps from a profile name to a scale map and are only read
  through \<^verbatim>\<open>operator[]\<close>, which yields an empty scale map for a profile that is not
  there: they are total functions into scale maps.
\<close>

record config =
  publish_stamped_twist :: bool
  robot_base_frame :: string
  require_enable_button :: bool
  enable_button :: int
  enable_turbo_button :: int
  inverted_reverse :: bool
  control_mode :: string
  axis_chassis_map :: "string \<rightharpoonup> int"
  axis_gimbal_map :: "string \<rightharpoonup> int"
  scale_chassis_map :: "string \<Rightarrow> (string \<rightharpoonup> real)"
  scale_gimbal_map :: "string \<Rightarrow> (string \<rightharpoonup> real)"

text \<open>
  The mutable state: the member \<^verbatim>\<open>sent_disable_msg_\<close>; the statics \<^verbatim>\<open>pitch\<close>,
  \<^verbatim>\<open>yaw\<close> and \<^verbatim>\<open>last_time\<close> of \<^verbatim>\<open>fillJointStateMsg\<close>; the static
  \<^verbatim>\<open>last_goal_time\<close> of \<^verbatim>\<open>sendGoalPoseAction\<close>. The two time statics are initialised
  with \<^verbatim>\<open>this->now()\<close> when control first passes their declaration: \<open>None\<close> until then.
\<close>

record state =
  sent_disable_msg :: bool
  pitch :: real
  yaw :: real
  last_time :: "int option"
  last_goal_time :: "int option"

definition initial_state :: "bool \<Rightarrow> state" where
  "initial_state b = \<lparr>sent_disable_msg = b, pitch = 0, yaw = 0,
                      last_time = None, last_goal_time = None\<rparr>"

text \<open>
  What a callback reads from outside the node: the clock, and the answer of
  \<^verbatim>\<open>tf_buffer_->lookupTransform("map", robot_base_frame_, tf2::TimePointZero)\<close>.
  \<open>None\<close> is a thrown \<^verbatim>\<open>tf2::TransformException\<close>; \<open>Some f\<close> is a transform, given by
  what \<^verbatim>\<open>tf2::doTransform\<close> computes with it from an input pose.
  \<open>now_init\<close> is what \<^verbatim>\<open>this->now()\<close> yields in the static initialiser of \<^verbatim>\<open>last_time\<close>,
  which runs in the first call of \<^verbatim>\<open>fillJointStateMsg\<close> only, just before the read of
  \<^verbatim>\<open>current_time\<close>.
\<close>

record env =
  now :: int
  now_init :: int
  lookupTransform :: "(pose_stamped \<Rightarrow> pose_stamped) option"

datatype event =
    PubTwist twist
  | PubTwistStamped twist_stamped
  | PubJointState joint_state
  | SendGoal pose_stamped
  | CancelGoalsBefore int
  | LogWarn

subsection \<open>Integer conversions and vector reads\<close>

text \<open>\<^verbatim>\<open>static_cast<int>(v.size())\<close>: the size truncated to 32 bits, read as signed.\<close>

definition static_cast_int :: "nat \<Rightarrow> int" where
  "static_cast_int n =
     (let m = int n mod 2 ^ 32 in if m < 2 ^ 31 then m else m - 2 ^ 32)"

text \<open>
  \<^verbatim>\<open>v[i]\<close> for a signed 64-bit \<^verbatim>\<open>i\<close>: the index converts to \<^verbatim>\<open>size_t\<close>, a negative one
  to a value beyond any size. A read outside the vector is undefined behaviour.
\<close>

definition vec_at :: "'a list \<Rightarrow> int \<Rightarrow> 'a option" where
  "vec_at v i = (if 0 \<le> i \<and> nat i < length v then Some (v ! nat i) else None)"

text \<open>\<^verbatim>\<open>Duration::seconds()\<close>: nanoseconds as a floating-point number of seconds.\<close>

definition seconds :: "int \<Rightarrow> real" where
  "seconds d = real_of_int d / 1000000000"

subsection \<open>\<^verbatim>\<open>getVal\<close>\<close>

definition getVal :: "joy \<Rightarrow> (string \<rightharpoonup> int) \<Rightarrow> (string \<rightharpoonup> real) \<Rightarrow> string \<Rightarrow> real option" where
  "getVal joy_msg axis_map scale_map fieldname =
     (case axis_map fieldname of
        None \<Rightarrow> Some 0
      | Some idx \<Rightarrow>
          if idx = - 1 then Some 0
          else (case scale_map fieldname of
                  None \<Rightarrow> Some 0
                | Some scale \<Rightarrow>
                    if static_cast_int (length (axes joy_msg)) \<le> idx then Some 0
                    else map_option (\<lambda>a. a * scale) (vec_at (axes joy_msg) idx)))"

subsection \<open>The enable test of \<^verbatim>\<open>joyCallback\<close>\<close>

datatype enable_state = Disabled | Normal | Turbo

text \<open>
  The two conditions of the \<^verbatim>\<open>if\<close> / \<^verbatim>\<open>else if\<close> chain of \<^verbatim>\<open>joyCallback\<close>, with the
  short-circuit order of \<^verbatim>\<open>&&\<close> and \<^verbatim>\<open>||\<close>. A button counts as pressed when its
  \<^verbatim>\<open>int32\<close> value is not zero.
\<close>

definition classify :: "config \<Rightarrow> joy \<Rightarrow> enable_state option" where
  "classify cfg joy_msg =
     (let n = static_cast_int (length (buttons joy_msg)) in
      do {
        turbo \<leftarrow> (if enable_turbo_button cfg \<ge> 0 \<and> n > enable_turbo_button cfg
                  then map_option (\<lambda>b. b \<noteq> 0) (vec_at (buttons joy_msg) (enable_turbo_button cfg))
                  else Some False);
        if turbo then Some Turbo
        else do {
          enabled \<leftarrow> (if \<not> require_enable_button cfg then Some True
                      else if n > enable_button cfg
                      then map_option (\<lambda>b. b \<noteq> 0) (vec_at (buttons joy_msg) (enable_button cfg))
                      else Some False);
          Some (if enabled then Normal else Disabled)
        }
      })"

subsection \<open>\<^verbatim>\<open>fillCmdVelMsg\<close>\<close>

definition fillCmdVelMsg :: "config \<Rightarrow> joy \<Rightarrow> string \<Rightarrow> twist option" where
  "fillCmdVelMsg cfg joy_msg which_map =
     do {
       lin_x \<leftarrow> getVal joy_msg (axis_chassis_map cfg) (scale_chassis_map cfg which_map) ''x'';
       ang_z \<leftarrow> getVal joy_msg (axis_gimbal_map cfg) (scale_gimbal_map cfg which_map) ''yaw'';
       lin_y \<leftarrow> getVal joy_msg (axis_chassis_map cfg) (scale_chassis_map cfg which_map) ''y'';
       lin_z \<leftarrow> getVal joy_msg (axis_chassis_map cfg) (scale_chassis_map cfg which_map) ''z'';
       ang_y \<leftarrow> getVal joy_msg (axis_gimbal_map cfg) (scale_gimbal_map cfg which_map) ''pitch'';
       ang_x \<leftarrow> getVal joy_msg (axis_gimbal_map cfg) (scale_gimbal_map cfg which_map) ''roll'';
       Some \<lparr>linear_x = lin_x, linear_y = lin_y, linear_z = lin_z,
             angular_x = ang_x, angular_y = ang_y,
             angular_z = (if lin_x < 0 \<and> inverted_reverse cfg then - ang_z else ang_z)\<rparr>
     }"

subsection \<open>\<^verbatim>\<open>fillJointStateMsg\<close>\<close>

definition fillJointStateMsg ::
  "config \<Rightarrow> state \<Rightarrow> env \<Rightarrow> joy \<Rightarrow> string \<Rightarrow> (state \<times> joint_state) option" where
  "fillJointStateMsg cfg s e joy_msg which_map =
     (let last = (case last_time s of None \<Rightarrow> now_init e | Some t \<Rightarrow> t);
          current_time = now e;
          dt = seconds (current_time - last)
      in do {
        p \<leftarrow> getVal joy_msg (axis_gimbal_map cfg) (scale_gimbal_map cfg which_map) ''pitch'';
        y \<leftarrow> getVal joy_msg (axis_gimbal_map cfg) (scale_gimbal_map cfg which_map) ''yaw'';
        let pitch' = pitch s + p * dt;
            yaw' = yaw s + y * dt
        in Some (s\<lparr>pitch := pitch', yaw := yaw', last_time := Some current_time\<rparr>,
                 \<lparr>js_stamp = current_time,
                  js_name = [''gimbal_pitch_joint'', ''gimbal_yaw_joint''],
                  js_position = [pitch', yaw']\<rparr>)
      })"

subsection \<open>\<^verbatim>\<open>sendGoalPoseAction\<close>\<close>

text \<open>
  The goal handed to \<^verbatim>\<open>async_send_goal\<close> is given by its pose, the result of
  \<^verbatim>\<open>doTransform\<close> on the local offset pose (which overwrites the header written before
  the lookup); the other field of the goal is left as constructed. The unqualified
  \<^verbatim>\<open>abs\<close> is applied to a \<^verbatim>\<open>double\<close> and is read as the floating-point absolute value.
\<close>

definition sendGoalPoseAction ::
  "config \<Rightarrow> state \<Rightarrow> env \<Rightarrow> joy \<Rightarrow> string \<Rightarrow> (state \<times> event list) option" where
  "sendGoalPoseAction cfg s e joy_msg which_map =
     do {
       x \<leftarrow> getVal joy_msg (axis_chassis_map cfg) (scale_chassis_map cfg which_map) ''x'';
       y \<leftarrow> getVal joy_msg (axis_chassis_map cfg) (scale_chassis_map cfg which_map) ''y'';
       if \<bar>x\<bar> \<le> 1 / 10 \<and> \<bar>y\<bar> \<le> 1 / 10 then Some (s\<lparr>sent_disable_msg := True\<rparr>, [])
       else
         let gimbal_pose = default_pose\<lparr>position_x := x, position_y := y\<rparr> in
         (case lookupTransform e of
            None \<Rightarrow> Some (s, [LogWarn])
          | Some transform \<Rightarrow>
              let last = (case last_goal_time s of None \<Rightarrow> now e | Some t \<Rightarrow> t);
                  current_time = now e
              in if seconds (current_time - last) \<ge> 1 / 4
                 then Some (s\<lparr>last_goal_time := Some current_time\<rparr>,
                            [SendGoal (transform gimbal_pose)])
                 else Some (s\<lparr>last_goal_time := Some last\<rparr>, []))
     }"

subsection \<open>\<^verbatim>\<open>sendZeroCommand\<close>\<close>

definition sendZeroCommand :: "config \<Rightarrow> env \<Rightarrow> event list" where
  "sendZeroCommand cfg e =
     (if control_mode cfg = ''auto_control'' then [CancelGoalsBefore (now e)] else []) @
     (if publish_stamped_twist cfg
      then [PubTwistStamped \<lparr>ts_stamp = now e, ts_frame_id = robot_base_frame cfg,
                              ts_twist = zero_twist\<rparr>]
      else [PubTwist zero_twist])"

subsection \<open>\<^verbatim>\<open>sendCmdVelMsg\<close>\<close>

definition sendCmdVelMsg ::
  "config \<Rightarrow> state \<Rightarrow> env \<Rightarrow> joy \<Rightarrow> string \<Rightarrow> (state \<times> event list) option" where
  "sendCmdVelMsg cfg s e joy_msg which_map =
     do {
       (s1, out1) \<leftarrow>
         (if control_mode cfg = ''manual_control''
          then do {
            cmd_vel \<leftarrow> fillCmdVelMsg cfg joy_msg which_map;
            Some (s, [if publish_stamped_twist cfg
                      then PubTwistStamped \<lparr>ts_stamp = now e,
                             ts_frame_id = robot_base_frame cfg, ts_twist = cmd_vel\<rparr>
                      else PubTwist cmd_vel])
          }
          else sendGoalPoseAction cfg s e joy_msg which_map);
       (s2, joint_state_msg) \<leftarrow> fillJointStateMsg cfg s1 e joy_msg which_map;
       Some (s2\<lparr>sent_disable_msg := True\<rparr>, out1 @ [PubJointState joint_state_msg])
     }"

subsection \<open>\<^verbatim>\<open>joyCallback\<close>\<close>

definition joyCallback :: "config \<Rightarrow> state \<Rightarrow> env \<Rightarrow> joy \<Rightarrow> (state \<times> event list) option" where
  "joyCallback cfg s e joy_msg =
     do {
       c \<leftarrow> classify cfg joy_msg;
       case c of
         Turbo \<Rightarrow> sendCmdVelMsg cfg s e joy_msg ''turbo''
       | Normal \<Rightarrow> sendCmdVelMsg cfg s e joy_msg ''normal''
       | Disabled \<Rightarrow>
           if sent_disable_msg s
           then Some (s\<lparr>sent_disable_msg := False\<rparr>, sendZeroCommand cfg e)
           else Some (s, [])
     }"

text \<open>The subscription delivers the samples one after the other, each to one callback.\<close>

fun run :: "config \<Rightarrow> state \<Rightarrow> (env \<times> joy) list \<Rightarrow> (state \<times> event list) option" where
  "run cfg s [] = Some (s, [])"
| "run cfg s ((e, joy_msg) # rest) =
     do {
       (s1, out1) \<leftarrow> joyCallback cfg s e joy_msg;
       (s2, out2) \<leftarrow> run cfg s1 rest;
       Some (s2, out1 @ out2)
     }"

subsection \<open>Reading the event list\<close>

text \<open>The velocity commands and the goals among the events of a callback.\<close>

fun velocity_commands :: "event list \<Rightarrow> twist list" where
  "velocity_commands [] = []"
| "velocity_commands (PubTwist t # evs) = t # velocity_commands evs"
| "velocity_commands (PubTwistStamped t # evs) = ts_twist t # velocity_commands evs"
| "velocity_commands (ev # evs) = velocity_commands evs"

fun goals :: "event list \<Rightarrow> pose_stamped list" where
  "goals [] = []"
| "goals (SendGoal g # evs) = g # goals evs"
| "goals (ev # evs) = goals evs"

fun joint_commands :: "event list \<Rightarrow> joint_state list" where
  "joint_commands [] = []"
| "joint_commands (PubJointState j # evs) = j # joint_commands evs"
| "joint_commands (ev # evs) = joint_commands evs"

text \<open>
  A sample is enabled with active profile \<open>p\<close>: the turbo branch runs with
  \<^verbatim>\<open>"turbo"\<close>, the enable branch with \<^verbatim>\<open>"normal"\<close>.
\<close>

definition enabled_with :: "config \<Rightarrow> joy \<Rightarrow> string \<Rightarrow> bool" where
  "enabled_with cfg joy_msg p \<longleftrightarrow>
     classify cfg joy_msg = Some Turbo \<and> p = ''turbo'' \<or>
     classify cfg joy_msg = Some Normal \<and> p = ''normal''"

text \<open>An axis map whose indices are the sentinel \<open>-1\<close> or not negative.\<close>

definition valid_axis_map :: "(string \<rightharpoonup> int) \<Rightarrow> bool" where
  "valid_axis_map m \<longleftrightarrow> (\<forall>f i. m f = Some i \<longrightarrow> - 1 \<le> i)"

subsection \<open>The constructor's defaults\<close>

text \<open>
  The values the constructor declares for each parameter; a launch file may override
  any of them. Both scale members get their \<^verbatim>\<open>"normal"\<close> and \<^verbatim>\<open>"turbo"\<close> entries.
\<close>

definition default_config :: config where
  "default_config =
     \<lparr>publish_stamped_twist = False,
      robot_base_frame = ''base_link'',
      require_enable_button = True,
      enable_button = 5,
      enable_turbo_button = - 1,
      inverted_reverse = False,
      control_mode = ''manual_control'',
      axis_chassis_map = [''x'' \<mapsto> 5, ''y'' \<mapsto> - 1, ''yaw'' \<mapsto> - 1],
      axis_gimbal_map = [''yaw'' \<mapsto> 2, ''pitch'' \<mapsto> - 1, ''roll'' \<mapsto> - 1],
      scale_chassis_map = (\<lambda>which_map.
         if which_map = ''normal'' then [''x'' \<mapsto> 1 / 2, ''y'' \<mapsto> 0, ''z'' \<mapsto> 0]
         else if which_map = ''turbo'' then [''x'' \<mapsto> 1, ''y'' \<mapsto> 0, ''z'' \<mapsto> 0]
         else Map.empty),
      scale_gimbal_map = (\<lambda>which_map.
         if which_map = ''normal'' then [''yaw'' \<mapsto> 1 / 2, ''pitch'' \<mapsto> 0, ''roll'' \<mapsto> 0]
         else if which_map = ''turbo'' then [''yaw'' \<mapsto> 1, ''pitch'' \<mapsto> 0, ''roll'' \<mapsto> 0]
         else Map.empty)\<rparr>"

text \<open>The same parameters with the control mode set to \<^verbatim>\<open>"auto_control"\<close>.\<close>

definition auto_config :: config where
  "auto_config = default_config\<lparr>control_mode := ''auto_control''\<rparr>"

subsection \<open>Vocabulary of the properties\<close>

text \<open>The mapped value of a chassis or gimbal channel under the profile \<open>p\<close>.\<close>

abbreviation chassis_val :: "config \<Rightarrow> joy \<Rightarrow> string \<Rightarrow> string \<Rightarrow> real option" where
  "chassis_val cfg joy_msg p f \<equiv> getVal joy_msg (axis_chassis_map cfg) (scale_chassis_map cfg p) f"

abbreviation gimbal_val :: "config \<Rightarrow> joy \<Rightarrow> string \<Rightarrow> string \<Rightarrow> real option" where
  "gimbal_val cfg joy_msg p f \<equiv> getVal joy_msg (axis_gimbal_map cfg) (scale_gimbal_map cfg p) f"

text \<open>The \<^verbatim>\<open>dt\<close> that \<^verbatim>\<open>fillJointStateMsg\<close> computes in state \<open>s\<close> under the readings of \<open>e\<close>.\<close>

definition elapsed :: "state \<Rightarrow> env \<Rightarrow> real" where
  "elapsed s e =
     seconds (now e - (case last_time s of None \<Rightarrow> now_init e | Some t \<Rightarrow> t))"

text \<open>The throttle test of \<^verbatim>\<open>sendGoalPoseAction\<close> in state \<open>s\<close>.\<close>

definition throttle_open :: "state \<Rightarrow> env \<Rightarrow> bool" where
  "throttle_open s e \<longleftrightarrow>
     seconds (now e - (case last_goal_time s of None \<Rightarrow> now e | Some t \<Rightarrow> t)) \<ge> 1 / 4"

text \<open>The joint command published for accumulated pitch \<open>p\<close> and yaw \<open>y\<close>.\<close>

definition joint_msg :: "env \<Rightarrow> real \<Rightarrow> real \<Rightarrow> joint_state" where
  "joint_msg e p y = \<lparr>js_stamp = now e,
     js_name = [''gimbal_pitch_joint'', ''gimbal_yaw_joint''], js_position = [p, y]\<rparr>"

text \<open>
  The state after an enabled sample with mapped pitch rate \<open>vp\<close> and yaw rate \<open>vy\<close>, the
  throttle timestamp apart.
\<close>

definition integrated :: "state \<Rightarrow> env \<Rightarrow> real \<Rightarrow> real \<Rightarrow> state" where
  "integrated s e vp vy =
     s\<lparr>pitch := pitch s + vp * elapsed s e, yaw := yaw s + vy * elapsed s e,
       last_time := Some (now e), sent_disable_msg := True\<rparr>"

text \<open>The local offset pose that \<^verbatim>\<open>sendGoalPoseAction\<close> builds from \<open>x\<close> and \<open>y\<close>.\<close>

definition offset_pose :: "real \<Rightarrow> real \<Rightarrow> pose_stamped" where
  "offset_pose x y = default_pose\<lparr>position_x := x, position_y := y\<rparr>"

definition in_deadzone :: "real \<Rightarrow> real \<Rightarrow> bool" where
  "in_deadzone x y \<longleftrightarrow> \<bar>x\<bar> \<le> 1 / 10 \<and> \<bar>y\<bar> \<le> 1 / 10"

text \<open>
  A sample reaches the throttle of \<^verbatim>\<open>sendGoalPoseAction\<close>: it is enabled, its mapped
  displacement is outside the deadzone, and the transform lookup succeeds.
\<close>

definition reaches_throttle :: "config \<Rightarrow> env \<Rightarrow> joy \<Rightarrow> bool" where
  "reaches_throttle cfg e joy_msg \<longleftrightarrow>
     (\<exists>p x y. enabled_with cfg joy_msg p
        \<and> chassis_val cfg joy_msg p ''x'' = Some x \<and> chassis_val cfg joy_msg p ''y'' = Some y
        \<and> \<not> in_deadzone x y \<and> lookupTransform e \<noteq> None)"

text \<open>Sample inputs: no button pressed; button 5 pressed with axis 5 at \<open>a\<close> and axis 2 at \<open>b\<close>.\<close>

definition released :: joy where
  "released = \<lparr>axes = [0, 0, 0, 0, 0, 0], buttons = [0, 0, 0, 0, 0, 0]\<rparr>"

definition pressed :: "real \<Rightarrow> real \<Rightarrow> joy" where
  "pressed a b = \<lparr>axes = [0, 0, b, 0, 0, a], buttons = [0, 0, 0, 0, 0, 1]\<rparr>"

text \<open>Every clock read yields \<open>t\<close> and the transform lookup yields the identity transform.\<close>

definition at_time :: "int \<Rightarrow> env" where
  "at_time t = \<lparr>now = t, now_init = t, lookupTransform = Some id\<rparr>"

section \<open>Auxiliary facts\<close>

subsection \<open>Conversions and \<^verbatim>\<open>getVal\<close>\<close>

lemma static_cast_int_small: "n < 2 ^ 31 \<Longrightarrow> static_cast_int n = int n"
  unfolding static_cast_int_def Let_def by simp

lemma static_cast_int_gt:
  assumes "0 \<le> i" and "i < static_cast_int n"
  shows "nat i < n"
proof -
  let ?m = "int n mod 2 ^ 32"
  have m: "0 \<le> ?m" "?m < 2 ^ 32" "?m \<le> int n" by (simp_all add: zmod_le_nonneg_dividend)
  have "static_cast_int n \<le> ?m" unfolding static_cast_int_def Let_def by simp
  with assms m show ?thesis by linarith
qed

lemma getVal_defined:
  assumes "\<And>i. axis_map f = Some i \<Longrightarrow> - 1 \<le> i"
  shows "\<exists>v. getVal joy_msg axis_map scale_map f = Some v"
proof (cases "axis_map f")
  case None
  then show ?thesis by (simp add: getVal_def)
next
  case (Some idx)
  with assms have ge: "- 1 \<le> idx" by simp
  show ?thesis
  proof (cases "idx = - 1 \<or> scale_map f = None \<or> static_cast_int (length (axes joy_msg)) \<le> idx")
    case True
    with Some show ?thesis by (auto simp: getVal_def split: option.splits)
  next
    case False
    with ge have "0 \<le> idx" "idx < static_cast_int (length (axes joy_msg))" by auto
    then have "nat idx < length (axes joy_msg)" by (rule static_cast_int_gt)
    with Some False \<open>0 \<le> idx\<close> show ?thesis
      by (auto simp: getVal_def vec_at_def split: option.splits)
  qed
qed

lemma getVal_valid: "valid_axis_map m \<Longrightarrow> \<exists>v. getVal joy_msg m sm f = Some v"
  by (rule getVal_defined) (simp add: valid_axis_map_def)

lemma getVal_value:
  assumes "length (axes joy_msg) < 2 ^ 31"
    and "\<And>i. axis_map f = Some i \<Longrightarrow> - 1 \<le> i"
  shows "getVal joy_msg axis_map scale_map f =
     Some (case (axis_map f, scale_map f) of
             (Some idx, Some scale) \<Rightarrow>
               if idx = - 1 \<or> int (length (axes joy_msg)) \<le> idx then 0
               else axes joy_msg ! nat idx * scale
           | _ \<Rightarrow> 0)"
  using assms
  by (auto simp: getVal_def vec_at_def static_cast_int_small split: option.splits)

lemma classify_value:
  assumes "length (buttons joy_msg) < 2 ^ 31"
    and "require_enable_button cfg \<longrightarrow> 0 \<le> enable_button cfg"
  shows "classify cfg joy_msg =
     Some (if 0 \<le> enable_turbo_button cfg
              \<and> enable_turbo_button cfg < int (length (buttons joy_msg))
              \<and> buttons joy_msg ! nat (enable_turbo_button cfg) \<noteq> 0 then Turbo
           else if \<not> require_enable_button cfg
              \<or> (enable_button cfg < int (length (buttons joy_msg))
                  \<and> buttons joy_msg ! nat (enable_button cfg) \<noteq> 0) then Normal
           else Disabled)"
  using assms
  by (auto simp: classify_def vec_at_def static_cast_int_small Let_def)

subsection \<open>The callbacks, branch by branch\<close>

lemma joyCallback_enabled:
  "enabled_with cfg joy_msg p \<Longrightarrow> joyCallback cfg s e joy_msg = sendCmdVelMsg cfg s e joy_msg p"
  by (auto simp: enabled_with_def joyCallback_def)

lemma joyCallback_disabled:
  "classify cfg joy_msg = Some Disabled \<Longrightarrow>
   joyCallback cfg s e joy_msg =
     Some (if sent_disable_msg s then (s\<lparr>sent_disable_msg := False\<rparr>, sendZeroCommand cfg e)
           else (s, []))"
  by (simp add: joyCallback_def)

lemma fillJointStateMsg_value:
  assumes "gimbal_val cfg joy_msg p ''pitch'' = Some vp"
    and "gimbal_val cfg joy_msg p ''yaw'' = Some vy"
  shows "fillJointStateMsg cfg s e joy_msg p =
     Some (s\<lparr>pitch := pitch s + vp * elapsed s e, yaw := yaw s + vy * elapsed s e,
             last_time := Some (now e)\<rparr>,
           joint_msg e (pitch s + vp * elapsed s e) (yaw s + vy * elapsed s e))"
  using assms by (simp add: fillJointStateMsg_def elapsed_def joint_msg_def Let_def)

lemma fillCmdVelMsg_defined:
  assumes "valid_axis_map (axis_chassis_map cfg)" and "valid_axis_map (axis_gimbal_map cfg)"
  shows "\<exists>tw. fillCmdVelMsg cfg joy_msg p = Some tw"
proof -
  obtain a b c where "chassis_val cfg joy_msg p ''x'' = Some a"
    "chassis_val cfg joy_msg p ''y'' = Some b" "chassis_val cfg joy_msg p ''z'' = Some c"
    using getVal_valid [OF assms(1)] by meson
  moreover obtain a' b' c' where "gimbal_val cfg joy_msg p ''yaw'' = Some a'"
    "gimbal_val cfg joy_msg p ''pitch'' = Some b'" "gimbal_val cfg joy_msg p ''roll'' = Some c'"
    using getVal_valid [OF assms(2)] by meson
  ultimately show ?thesis by (simp add: fillCmdVelMsg_def)
qed

lemma sendGoalPoseAction_frame:
  assumes "sendGoalPoseAction cfg s e joy_msg p = Some (s1, out)"
  shows "pitch s1 = pitch s \<and> yaw s1 = yaw s \<and> last_time s1 = last_time s
         \<and> joint_commands out = [] \<and> velocity_commands out = []"
  using assms
  by (auto simp: sendGoalPoseAction_def Let_def bind_eq_Some_conv split: if_splits option.splits)

lemma sendGoalPoseAction_defined:
  assumes "valid_axis_map (axis_chassis_map cfg)"
  shows "\<exists>r. sendGoalPoseAction cfg s e joy_msg p = Some r"
proof -
  obtain a b where "chassis_val cfg joy_msg p ''x'' = Some a"
    "chassis_val cfg joy_msg p ''y'' = Some b"
    using getVal_valid [OF assms] by meson
  then show ?thesis
    by (simp add: sendGoalPoseAction_def Let_def split: option.splits)
qed

lemma sendCmdVelMsg_goal:
  assumes "control_mode cfg \<noteq> ''manual_control''"
    and "sendGoalPoseAction cfg s e joy_msg p = Some (s1, out1)"
    and "gimbal_val cfg joy_msg p ''pitch'' = Some vp"
    and "gimbal_val cfg joy_msg p ''yaw'' = Some vy"
  shows "sendCmdVelMsg cfg s e joy_msg p =
     Some (integrated s1 e vp vy,
           out1 @ [PubJointState (joint_msg e (pitch s1 + vp * elapsed s1 e) (yaw s1 + vy * elapsed s1 e))])"
  using assms by (simp add: sendCmdVelMsg_def fillJointStateMsg_value integrated_def)

lemma sendCmdVelMsg_manual:
  assumes "control_mode cfg = ''manual_control''"
    and "fillCmdVelMsg cfg joy_msg p = Some tw"
    and "gimbal_val cfg joy_msg p ''pitch'' = Some vp"
    and "gimbal_val cfg joy_msg p ''yaw'' = Some vy"
  shows "sendCmdVelMsg cfg s e joy_msg p =
     Some (integrated s e vp vy,
           [if publish_stamped_twist cfg
            then PubTwistStamped \<lparr>ts_stamp = now e, ts_frame_id = robot_base_frame cfg, ts_twist = tw\<rparr>
            else PubTwist tw,
            PubJointState (joint_msg e (pitch s + vp * elapsed s e) (yaw s + vy * elapsed s e))])"
  using assms by (simp add: sendCmdVelMsg_def fillJointStateMsg_value integrated_def)

lemma sendCmdVelMsg_flag:
  "sendCmdVelMsg cfg s e joy_msg p = Some (s1, out) \<Longrightarrow> sent_disable_msg s1"
  by (auto simp: sendCmdVelMsg_def bind_eq_Some_conv split: if_splits prod.splits)

lemma run_disabled:
  assumes "\<not> sent_disable_msg s"
    and "\<forall>(e, d) \<in> set ds. classify cfg d = Some Disabled"
  shows "run cfg s ds = Some (s, [])"
  using assms by (induction ds) (auto simp: joyCallback_disabled)

lemma velocity_commands_sendZeroCommand:
  "velocity_commands (sendZeroCommand cfg e) = [zero_twist]"
  by (simp add: sendZeroCommand_def)

lemma sendGoalPoseAction_deadzone:
  assumes "chassis_val cfg joy_msg p ''x'' = Some x" and "chassis_val cfg joy_msg p ''y'' = Some y"
    and "in_deadzone x y"
  shows "sendGoalPoseAction cfg s e joy_msg p = Some (s\<lparr>sent_disable_msg := True\<rparr>, [])"
  using assms by (simp add: sendGoalPoseAction_def in_deadzone_def)

lemma sendGoalPoseAction_no_transform:
  assumes "chassis_val cfg joy_msg p ''x'' = Some x" and "chassis_val cfg joy_msg p ''y'' = Some y"
    and "\<not> in_deadzone x y" and "lookupTransform e = None"
  shows "sendGoalPoseAction cfg s e joy_msg p = Some (s, [LogWarn])"
  using assms by (simp add: sendGoalPoseAction_def in_deadzone_def)

lemma sendGoalPoseAction_attempt:
  assumes "chassis_val cfg joy_msg p ''x'' = Some x" and "chassis_val cfg joy_msg p ''y'' = Some y"
    and "\<not> in_deadzone x y" and "lookupTransform e = Some tf"
  shows "sendGoalPoseAction cfg s e joy_msg p =
     Some (if throttle_open s e
           then (s\<lparr>last_goal_time := Some (now e)\<rparr>, [SendGoal (tf (offset_pose x y))])
           else (s\<lparr>last_goal_time :=
                     Some (case last_goal_time s of None \<Rightarrow> now e | Some t \<Rightarrow> t)\<rparr>, []))"
  using assms
  by (auto simp: sendGoalPoseAction_def in_deadzone_def throttle_open_def offset_pose_def Let_def)

lemma integrated_simps [simp]:
  "sent_disable_msg (integrated s e vp vy)"
  "pitch (integrated s e vp vy) = pitch s + vp * elapsed s e"
  "yaw (integrated s e vp vy) = yaw s + vy * elapsed s e"
  "last_time (integrated s e vp vy) = Some (now e)"
  "last_goal_time (integrated s e vp vy) = last_goal_time s"
  by (simp_all add: integrated_def)

lemma elapsed_upd [simp]:
  "elapsed (s\<lparr>sent_disable_msg := b\<rparr>) e = elapsed s e"
  "elapsed (s\<lparr>last_goal_time := g\<rparr>) e = elapsed s e"
  by (simp_all add: elapsed_def)

lemma integrated_upd:
  "integrated (s\<lparr>sent_disable_msg := b\<rparr>) e vp vy = integrated s e vp vy"
  "integrated (s\<lparr>last_goal_time := g\<rparr>) e vp vy = (integrated s e vp vy)\<lparr>last_goal_time := g\<rparr>"
  by (simp_all add: integrated_def elapsed_def)

lemma goals_append: "goals (xs @ ys) = goals xs @ goals ys"
  by (induction xs rule: goals.induct) simp_all

lemma joint_commands_append: "joint_commands (xs @ ys) = joint_commands xs @ joint_commands ys"
  by (induction xs rule: joint_commands.induct) simp_all

lemma goals_sendZeroCommand: "goals (sendZeroCommand cfg e) = []"
  by (simp add: sendZeroCommand_def)

lemma throttle_open_None: "last_goal_time s = None \<Longrightarrow> \<not> throttle_open s e"
  by (simp add: throttle_open_def seconds_def)

lemma seconds_ge_quarter: "1 / 4 \<le> seconds d \<longleftrightarrow> 250000000 \<le> d"
proof -
  have "(1 / 4 \<le> real_of_int d / 1000000000) \<longleftrightarrow> (real_of_int 250000000 \<le> real_of_int d)"
    by (simp add: field_simps)
  also have "\<dots> \<longleftrightarrow> 250000000 \<le> d" by (simp only: of_int_le_iff)
  finally show ?thesis by (simp only: seconds_def)
qed

lemma throttle_open_Some:
  "last_goal_time s = Some l \<Longrightarrow> throttle_open s e \<longleftrightarrow> 250000000 \<le> now e - l"
  by (simp only: throttle_open_def option.case seconds_ge_quarter)

lemma throttle_open_integrated [simp]:
  "throttle_open (integrated s e' vp vy) e = throttle_open s e"
  by (simp add: throttle_open_def)

lemma joint_commands_twist_event [simp]:
  "joint_commands ((if b then PubTwistStamped t else PubTwist u) # evs) = joint_commands evs"
  by simp

lemma sendCmdVelMsg_gimbal:
  assumes "valid_axis_map (axis_chassis_map cfg)" and "valid_axis_map (axis_gimbal_map cfg)"
    and "gimbal_val cfg joy_msg p ''pitch'' = Some vp"
    and "gimbal_val cfg joy_msg p ''yaw'' = Some vy"
  shows "\<exists>s1 out. sendCmdVelMsg cfg s e joy_msg p = Some (s1, out)
       \<and> pitch s1 = pitch s + vp * elapsed s e \<and> yaw s1 = yaw s + vy * elapsed s e
       \<and> last_time s1 = Some (now e)
       \<and> joint_commands out = [joint_msg e (pitch s1) (yaw s1)]"
proof (cases "control_mode cfg = ''manual_control''")
  case True
  obtain tw where tw: "fillCmdVelMsg cfg joy_msg p = Some tw"
    using fillCmdVelMsg_defined [OF assms(1,2)] by blast
  note eq = sendCmdVelMsg_manual [OF True tw assms(3,4), of s e]
  show ?thesis
  proof (intro exI conjI)
    show "sendCmdVelMsg cfg s e joy_msg p = Some (integrated s e vp vy,
           [if publish_stamped_twist cfg
            then PubTwistStamped \<lparr>ts_stamp = now e, ts_frame_id = robot_base_frame cfg, ts_twist = tw\<rparr>
            else PubTwist tw,
            PubJointState (joint_msg e (pitch s + vp * elapsed s e) (yaw s + vy * elapsed s e))])"
      by (rule eq)
  qed simp_all
next
  case False
  from sendGoalPoseAction_defined [OF assms(1), of s e joy_msg p]
  obtain r where "sendGoalPoseAction cfg s e joy_msg p = Some r" ..
  then obtain s0 out0 where g: "sendGoalPoseAction cfg s e joy_msg p = Some (s0, out0)"
    by (cases r) simp
  note fr = sendGoalPoseAction_frame [OF g]
  then have el: "elapsed s0 e = elapsed s e" by (simp add: elapsed_def)
  note eq = sendCmdVelMsg_goal [OF False g assms(3,4)]
  show ?thesis
  proof (intro exI conjI)
    show "sendCmdVelMsg cfg s e joy_msg p = Some (integrated s0 e vp vy,
           out0 @ [PubJointState (joint_msg e (pitch s0 + vp * elapsed s0 e) (yaw s0 + vy * elapsed s0 e))])"
      by (rule eq)
  qed (simp_all add: fr el joint_commands_append)
qed

lemma goal_step:
  assumes "control_mode cfg \<noteq> ''manual_control''"
    and "enabled_with cfg joy_msg p"
    and "chassis_val cfg joy_msg p ''x'' = Some x"
    and "chassis_val cfg joy_msg p ''y'' = Some y"
    and "\<not> in_deadzone x y"
    and "lookupTransform e = Some tf"
    and "gimbal_val cfg joy_msg p ''pitch'' = Some vp"
    and "gimbal_val cfg joy_msg p ''yaw'' = Some vy"
  shows "joyCallback cfg s e joy_msg =
     Some ((integrated s e vp vy)
             \<lparr>last_goal_time := Some (if throttle_open s e then now e
                 else (case last_goal_time s of None \<Rightarrow> now e | Some t \<Rightarrow> t))\<rparr>,
           (if throttle_open s e then [SendGoal (tf (offset_pose x y))] else []) @
           [PubJointState (joint_msg e (pitch s + vp * elapsed s e) (yaw s + vy * elapsed s e))])"
proof -
  note g = sendGoalPoseAction_attempt [OF assms(3,4,5,6), of s]
  have "joyCallback cfg s e joy_msg = sendCmdVelMsg cfg s e joy_msg p"
    by (rule joyCallback_enabled [OF assms(2)])
  also have "\<dots> = Some ((integrated s e vp vy)
             \<lparr>last_goal_time := Some (if throttle_open s e then now e
                 else (case last_goal_time s of None \<Rightarrow> now e | Some t \<Rightarrow> t))\<rparr>,
           (if throttle_open s e then [SendGoal (tf (offset_pose x y))] else []) @
           [PubJointState (joint_msg e (pitch s + vp * elapsed s e) (yaw s + vy * elapsed s e))])"
  proof (cases "throttle_open s e")
    case True
    with g have "sendGoalPoseAction cfg s e joy_msg p =
      Some (s\<lparr>last_goal_time := Some (now e)\<rparr>, [SendGoal (tf (offset_pose x y))])" by simp
    from sendCmdVelMsg_goal [OF assms(1) this assms(7,8)] True show ?thesis
      by (simp add: integrated_upd)
  next
    case False
    with g have "sendGoalPoseAction cfg s e joy_msg p =
      Some (s\<lparr>last_goal_time := Some (case last_goal_time s of None \<Rightarrow> now e | Some t \<Rightarrow> t)\<rparr>, [])"
      by simp
    from sendCmdVelMsg_goal [OF assms(1) this assms(7,8)] False show ?thesis
      by (simp add: integrated_upd)
  qed
  finally show ?thesis .
qed

lemma no_reach_step:
  assumes "control_mode cfg \<noteq> ''manual_control''"
    and "joyCallback cfg s e joy_msg = Some (s', out)"
    and "\<not> reaches_throttle cfg e joy_msg"
  shows "last_goal_time s' = last_goal_time s \<and> goals out = []"
proof (cases "classify cfg joy_msg = Some Disabled")
  case True
  with assms(2) show ?thesis
    by (auto simp: joyCallback_disabled goals_sendZeroCommand split: if_splits)
next
  case False
  from assms(2) obtain c where c: "classify cfg joy_msg = Some c"
    by (auto simp: joyCallback_def bind_eq_Some_conv)
  with False have "c = Turbo \<or> c = Normal" by (cases c) simp_all
  with c obtain p where en: "enabled_with cfg joy_msg p"
    by (auto simp: enabled_with_def)
  with assms(2) have c: "sendCmdVelMsg cfg s e joy_msg p = Some (s', out)"
    by (simp add: joyCallback_enabled)
  then obtain s0 out0 js where g: "sendGoalPoseAction cfg s e joy_msg p = Some (s0, out0)"
    and o: "out = out0 @ [PubJointState js]"
    and l: "last_goal_time s' = last_goal_time s0"
    using assms(1)
    by (auto simp: sendCmdVelMsg_def fillJointStateMsg_def Let_def bind_eq_Some_conv split: prod.splits)
  from g obtain x y where x: "chassis_val cfg joy_msg p ''x'' = Some x"
    and y: "chassis_val cfg joy_msg p ''y'' = Some y"
    by (auto simp: sendGoalPoseAction_def bind_eq_Some_conv)
  from assms(3) en x y have "in_deadzone x y \<or> lookupTransform e = None"
    by (auto simp: reaches_throttle_def)
  then have "last_goal_time s0 = last_goal_time s \<and> goals out0 = []"
  proof
    assume "in_deadzone x y"
    from sendGoalPoseAction_deadzone [OF x y this, of s e] g show ?thesis by auto
  next
    assume nt: "lookupTransform e = None"
    show ?thesis
    proof (cases "in_deadzone x y")
      case True
      from sendGoalPoseAction_deadzone [OF x y this, of s e] g show ?thesis by auto
    next
      case False
      from sendGoalPoseAction_no_transform [OF x y False nt, of s] g show ?thesis by auto
    qed
  qed
  with o l show ?thesis by (simp add: goals_append)
qed

lemma run_no_reach:
  assumes "control_mode cfg \<noteq> ''manual_control''"
    and "run cfg s pre = Some (s', out)"
    and "\<forall>(e, j) \<in> set pre. \<not> reaches_throttle cfg e j"
  shows "last_goal_time s' = last_goal_time s \<and> goals out = []"
  using assms(2,3)
proof (induction pre arbitrary: s s' out)
  case Nil
  then show ?case by simp
next
  case (Cons a pre)
  obtain e j where a: "a = (e, j)" by (cases a)
  with Cons.prems(1) obtain s1 o1 o2 where
    1: "joyCallback cfg s e j = Some (s1, o1)" and 2: "run cfg s1 pre = Some (s', o2)"
    and o: "out = o1 @ o2"
    by (auto simp: bind_eq_Some_conv)
  from Cons.prems(2) a have nr: "\<not> reaches_throttle cfg e j" by simp
  from no_reach_step [OF assms(1) 1 nr] Cons.IH [OF 2] Cons.prems(2) o
  show ?case by (simp add: goals_append)
qed

subsection \<open>The sample inputs, evaluated\<close>

lemmas eval_defs = default_config_def released_def pressed_def at_time_def initial_state_def
  getVal_def vec_at_def static_cast_int_def classify_def enabled_with_def

lemma classify_pressed: "classify default_config (pressed a b) = Some Normal"
  by (simp add: eval_defs)

lemma classify_released: "classify default_config released = Some Disabled"
  by (simp add: eval_defs)

lemma enabled_pressed: "enabled_with default_config (pressed a b) ''normal''"
  by (simp add: enabled_with_def classify_pressed)

lemma vals_pressed:
  "chassis_val default_config (pressed a b) ''normal'' ''x'' = Some (a / 2)"
  "chassis_val default_config (pressed a b) ''normal'' ''y'' = Some 0"
  "chassis_val default_config (pressed a b) ''normal'' ''z'' = Some 0"
  "gimbal_val default_config (pressed a b) ''normal'' ''roll'' = Some 0"
  "gimbal_val default_config (pressed a b) ''normal'' ''pitch'' = Some 0"
  "gimbal_val default_config (pressed a b) ''normal'' ''yaw'' = Some (b / 2)"
  by (simp_all add: eval_defs)

lemma valid_default:
  "valid_axis_map (axis_chassis_map default_config)"
  "valid_axis_map (axis_gimbal_map default_config)"
  by (auto simp: valid_axis_map_def default_config_def split: if_splits)

lemma classify_auto:
  "classify auto_config (pressed a b) = Some Normal"
  "classify auto_config released = Some Disabled"
  by (simp_all add: eval_defs auto_config_def)

lemma enabled_auto: "enabled_with auto_config (pressed a b) ''normal''"
  by (simp add: enabled_with_def classify_auto)

lemma vals_auto:
  "chassis_val auto_config (pressed a b) ''normal'' ''x'' = Some (a / 2)"
  "chassis_val auto_config (pressed a b) ''normal'' ''y'' = Some 0"
  "gimbal_val auto_config (pressed a b) ''normal'' ''pitch'' = Some 0"
  "gimbal_val auto_config (pressed a b) ''normal'' ''yaw'' = Some (b / 2)"
  by (simp_all add: eval_defs auto_config_def)

lemma mode_auto: "control_mode auto_config \<noteq> ''manual_control''"
  by (simp add: auto_config_def)

lemma lookup_at_time:
  "lookupTransform (at_time t) = Some id" "now (at_time t) = t" "now_init (at_time t) = t"
  by (simp_all add: at_time_def)

lemma vals_auto_full:
  "chassis_val auto_config (pressed 1 0) ''normal'' ''x'' = Some (1 / 2)"
  "chassis_val auto_config (pressed 1 0) ''normal'' ''y'' = Some 0"
  "\<not> in_deadzone (1 / 2) 0"
  "gimbal_val auto_config (pressed 1 0) ''normal'' ''pitch'' = Some 0"
  "gimbal_val auto_config (pressed 1 0) ''normal'' ''yaw'' = Some 0"
  using vals_auto [of 1 0] by (simp_all add: in_deadzone_def)

lemma run_released_auto:
  "run auto_config (initial_state False) [(at_time 0, released)] = Some (initial_state False, [])"
  by (simp add: joyCallback_disabled classify_auto initial_state_def)

lemma released_no_reach:
  "\<forall>(e', j') \<in> set [(at_time 0, released)]. \<not> reaches_throttle auto_config e' j'"
  by (simp add: reaches_throttle_def enabled_with_def classify_auto)

section \<open>The properties\<close>

text \<open>
  C1. \<^verbatim>\<open>getVal\<close> is meant to return \<open>0.0\<close> or the scaled axis value for every axis map.
  For a mapped index below the sentinel \<open>-1\<close> none of its four tests fires and the axis
  vector is read outside its bounds: the call has no defined result.
\<close>

theorem getVal_negative_index:
  "getVal \<lparr>axes = [1], buttons = []\<rparr> [''x'' \<mapsto> - 2] [''x'' \<mapsto> 1] ''x'' = None"
  by (simp add: getVal_def vec_at_def static_cast_int_def)

text \<open>
  C4. The enable test is meant to classify every sample and configuration. With a
  required enable button whose index is negative, the size test passes and the button
  vector is read outside its bounds, where the turbo test above it checks the sign first.
\<close>

theorem classify_negative_enable_button:
  "classify (default_config\<lparr>enable_button := - 1\<rparr>) released = None"
  by (simp add: classify_def vec_at_def static_cast_int_def default_config_def released_def)

text \<open>
  C8. For an enabled sample with active profile \<open>p\<close>, the velocity command has the three
  mapped chassis values as its linear part, the mapped gimbal roll and pitch as angular
  \<open>x\<close> and \<open>y\<close>, and the mapped gimbal yaw as angular \<open>z\<close>, negated exactly when
  \<^verbatim>\<open>inverted_reverse_\<close> is set and the linear \<open>x\<close> is negative.
\<close>

theorem fillCmdVelMsg_fields:
  assumes "chassis_val cfg joy_msg p ''x'' = Some lx"
    and "chassis_val cfg joy_msg p ''y'' = Some ly"
    and "chassis_val cfg joy_msg p ''z'' = Some lz"
    and "gimbal_val cfg joy_msg p ''roll'' = Some ax"
    and "gimbal_val cfg joy_msg p ''pitch'' = Some ay"
    and "gimbal_val cfg joy_msg p ''yaw'' = Some az"
  shows "fillCmdVelMsg cfg joy_msg p =
           Some \<lparr>linear_x = lx, linear_y = ly, linear_z = lz, angular_x = ax, angular_y = ay,
                 angular_z = (if inverted_reverse cfg \<and> lx < 0 then - az else az)\<rparr>
       \<and> (enabled_with cfg joy_msg p \<and> control_mode cfg = ''manual_control'' \<longrightarrow>
            (\<exists>s' out. joyCallback cfg s e joy_msg = Some (s', out)
               \<and> velocity_commands out =
                   [\<lparr>linear_x = lx, linear_y = ly, linear_z = lz, angular_x = ax,
                     angular_y = ay,
                     angular_z = (if inverted_reverse cfg \<and> lx < 0 then - az else az)\<rparr>]))"
proof -
  let ?tw = "\<lparr>linear_x = lx, linear_y = ly, linear_z = lz, angular_x = ax, angular_y = ay,
              angular_z = (if inverted_reverse cfg \<and> lx < 0 then - az else az)\<rparr>"
  have tw: "fillCmdVelMsg cfg joy_msg p = Some ?tw"
    using assms by (simp add: fillCmdVelMsg_def)
  have "\<exists>s' out. joyCallback cfg s e joy_msg = Some (s', out) \<and> velocity_commands out = [?tw]"
    if en: "enabled_with cfg joy_msg p" and m: "control_mode cfg = ''manual_control''"
  proof -
    have "joyCallback cfg s e joy_msg = sendCmdVelMsg cfg s e joy_msg p"
      by (rule joyCallback_enabled [OF en])
    also note sendCmdVelMsg_manual [OF m tw assms(5,6), of s e]
    finally show ?thesis by simp
  qed
  with tw show ?thesis by blast
qed

theorem fillCmdVelMsg_fields_witness:
  "chassis_val (default_config\<lparr>inverted_reverse := True\<rparr>) (pressed (- 1) (3 / 5)) ''normal'' ''x'' = Some (- 1 / 2)
   \<and> chassis_val (default_config\<lparr>inverted_reverse := True\<rparr>) (pressed (- 1) (3 / 5)) ''normal'' ''y'' = Some 0
   \<and> chassis_val (default_config\<lparr>inverted_reverse := True\<rparr>) (pressed (- 1) (3 / 5)) ''normal'' ''z'' = Some 0
   \<and> gimbal_val (default_config\<lparr>inverted_reverse := True\<rparr>) (pressed (- 1) (3 / 5)) ''normal'' ''roll'' = Some 0
   \<and> gimbal_val (default_config\<lparr>inverted_reverse := True\<rparr>) (pressed (- 1) (3 / 5)) ''normal'' ''pitch'' = Some 0
   \<and> gimbal_val (default_config\<lparr>inverted_reverse := True\<rparr>) (pressed (- 1) (3 / 5)) ''normal'' ''yaw'' = Some (3 / 10)
   \<and> fillCmdVelMsg (default_config\<lparr>inverted_reverse := True\<rparr>) (pressed (- 1) (3 / 5)) ''normal'' =
         Some \<lparr>linear_x = - 1 / 2, linear_y = 0, linear_z = 0, angular_x = 0, angular_y = 0,
               angular_z = - 3 / 10\<rparr>
   \<and> fillCmdVelMsg (default_config\<lparr>inverted_reverse := True\<rparr>) (pressed 1 (3 / 5)) ''normal'' =
         Some \<lparr>linear_x = 1 / 2, linear_y = 0, linear_z = 0, angular_x = 0, angular_y = 0,
               angular_z = 3 / 10\<rparr>"
proof -
  let ?cfg = "default_config\<lparr>inverted_reverse := True\<rparr>"
  have a: "chassis_val ?cfg (pressed (- 1) (3 / 5)) ''normal'' ''x'' = Some (- 1 / 2)"
    "chassis_val ?cfg (pressed (- 1) (3 / 5)) ''normal'' ''y'' = Some 0"
    "chassis_val ?cfg (pressed (- 1) (3 / 5)) ''normal'' ''z'' = Some 0"
    "gimbal_val ?cfg (pressed (- 1) (3 / 5)) ''normal'' ''roll'' = Some 0"
    "gimbal_val ?cfg (pressed (- 1) (3 / 5)) ''normal'' ''pitch'' = Some 0"
    "gimbal_val ?cfg (pressed (- 1) (3 / 5)) ''normal'' ''yaw'' = Some (3 / 10)"
    by (simp_all add: eval_defs)
  have b: "chassis_val ?cfg (pressed 1 (3 / 5)) ''normal'' ''x'' = Some (1 / 2)"
    "chassis_val ?cfg (pressed 1 (3 / 5)) ''normal'' ''y'' = Some 0"
    "chassis_val ?cfg (pressed 1 (3 / 5)) ''normal'' ''z'' = Some 0"
    "gimbal_val ?cfg (pressed 1 (3 / 5)) ''normal'' ''roll'' = Some 0"
    "gimbal_val ?cfg (pressed 1 (3 / 5)) ''normal'' ''pitch'' = Some 0"
    "gimbal_val ?cfg (pressed 1 (3 / 5)) ''normal'' ''yaw'' = Some (3 / 10)"
    by (simp_all add: eval_defs)
  have inv: "inverted_reverse ?cfg" by simp
  from fillCmdVelMsg_fields [OF a, THEN conjunct1] fillCmdVelMsg_fields [OF b, THEN conjunct1]
    inv a show ?thesis by simp
qed

text \<open>
  C2. After any processed enabled sample the disable flag is set. The Disabled sample
  that follows emits the events of \<^verbatim>\<open>sendZeroCommand\<close>, among them exactly one velocity
  command, which is zero; however many Disabled samples come after it, they emit nothing.
\<close>

theorem disable_stop_once:
  assumes "enabled_with cfg joy_msg p"
    and "joyCallback cfg s e joy_msg = Some (s1, out1)"
    and "classify cfg d0 = Some Disabled"
    and "\<forall>(e', d) \<in> set ds. classify cfg d = Some Disabled"
  shows "sent_disable_msg s1
       \<and> run cfg s ((e, joy_msg) # (e0, d0) # ds) =
           Some (s1\<lparr>sent_disable_msg := False\<rparr>, out1 @ sendZeroCommand cfg e0)
       \<and> velocity_commands (sendZeroCommand cfg e0) = [zero_twist]"
proof -
  have "sendCmdVelMsg cfg s e joy_msg p = Some (s1, out1)"
    using assms(1,2) by (simp add: joyCallback_enabled)
  then have flag: "sent_disable_msg s1" by (rule sendCmdVelMsg_flag)
  have rest: "run cfg (s1\<lparr>sent_disable_msg := False\<rparr>) ds = Some (s1\<lparr>sent_disable_msg := False\<rparr>, [])"
    by (rule run_disabled) (use assms(4) in simp_all)
  have "run cfg s ((e, joy_msg) # (e0, d0) # ds) =
          Some (s1\<lparr>sent_disable_msg := False\<rparr>, out1 @ sendZeroCommand cfg e0)"
    using assms(2,3) flag rest by (simp add: joyCallback_disabled)
  with flag show ?thesis by (simp add: velocity_commands_sendZeroCommand)
qed

theorem disable_stop_once_witness:
  "sent_disable_msg (integrated (initial_state False) (at_time 0) 0 0)
   \<and> run default_config (initial_state False)
         ((at_time 0, pressed 1 0) # (at_time 1, released) #
          [(at_time 2, released), (at_time 3, released)]) =
       Some ((integrated (initial_state False) (at_time 0) 0 0)\<lparr>sent_disable_msg := False\<rparr>,
             [PubTwist \<lparr>linear_x = 1 / 2, linear_y = 0, linear_z = 0,
                        angular_x = 0, angular_y = 0, angular_z = 0\<rparr>,
              PubJointState (joint_msg (at_time 0) 0 0)]
             @ sendZeroCommand default_config (at_time 1))
   \<and> velocity_commands (sendZeroCommand default_config (at_time 1)) = [zero_twist]"
proof -
  have tw: "fillCmdVelMsg default_config (pressed 1 0) ''normal'' =
      Some \<lparr>linear_x = 1 / 2, linear_y = 0, linear_z = 0,
            angular_x = 0, angular_y = 0, angular_z = 0\<rparr>"
    unfolding fillCmdVelMsg_def vals_pressed by (simp add: default_config_def)
  have m: "control_mode default_config = ''manual_control''" by (simp add: default_config_def)
  have p: "\<not> publish_stamped_twist default_config" by (simp add: default_config_def)
  have z: "pitch (initial_state False) = 0" "yaw (initial_state False) = 0"
    by (simp_all add: initial_state_def)
  note s0 = sendCmdVelMsg_manual [OF m tw vals_pressed(5,6),
      where s = "initial_state False" and e = "at_time 0"]
  have step: "joyCallback default_config (initial_state False) (at_time 0) (pressed 1 0) =
      Some (integrated (initial_state False) (at_time 0) 0 0,
            [PubTwist \<lparr>linear_x = 1 / 2, linear_y = 0, linear_z = 0,
                       angular_x = 0, angular_y = 0, angular_z = 0\<rparr>,
             PubJointState (joint_msg (at_time 0) 0 0)])"
    by (simp add: joyCallback_enabled [OF enabled_pressed] s0 p z)
  have ds: "\<forall>(e', d) \<in> set [(at_time 2, released), (at_time 3, released)].
      classify default_config d = Some Disabled"
    by (simp add: classify_released)
  show ?thesis
    by (rule disable_stop_once [OF enabled_pressed step classify_released ds])
qed

text \<open>
  C9. On a disable edge the cancellation of the goals sent so far is meant to be requested
  whenever the node is in goal-directed mode. \<^verbatim>\<open>sendCmdVelMsg\<close> sends goals in every mode
  other than \<^verbatim>\<open>"manual_control"\<close>, but \<^verbatim>\<open>sendZeroCommand\<close> cancels only in mode
  \<^verbatim>\<open>"auto_control"\<close>: in mode \<^verbatim>\<open>"auto"\<close> an enabled sample submits a goal and the disable
  edge after it publishes the zero velocity command alone.
\<close>

theorem other_mode_goal_not_cancelled:
  "joyCallback (default_config\<lparr>control_mode := ''auto''\<rparr>)
       ((initial_state False)\<lparr>last_goal_time := Some 0\<rparr>) (at_time 1000000000) (pressed 1 0) =
     Some ((integrated ((initial_state False)\<lparr>last_goal_time := Some 0\<rparr>)
              (at_time 1000000000) 0 0)\<lparr>last_goal_time := Some 1000000000\<rparr>,
           [SendGoal (offset_pose (1 / 2) 0),
            PubJointState (joint_msg (at_time 1000000000) 0 0)])
   \<and> joyCallback (default_config\<lparr>control_mode := ''auto''\<rparr>)
       ((integrated ((initial_state False)\<lparr>last_goal_time := Some 0\<rparr>)
              (at_time 1000000000) 0 0)\<lparr>last_goal_time := Some 1000000000\<rparr>)
       (at_time 2000000000) released =
     Some ((integrated ((initial_state False)\<lparr>last_goal_time := Some 0\<rparr>)
              (at_time 1000000000) 0 0)
             \<lparr>last_goal_time := Some 1000000000, sent_disable_msg := False\<rparr>,
           [PubTwist zero_twist])"
proof -
  let ?cfg = "default_config\<lparr>control_mode := ''auto''\<rparr>"
  let ?s = "(initial_state False)\<lparr>last_goal_time := Some 0\<rparr>"
  have m: "control_mode ?cfg \<noteq> ''manual_control''" by simp
  have en: "enabled_with ?cfg (pressed 1 0) ''normal''" by (simp add: eval_defs)
  have v: "chassis_val ?cfg (pressed 1 0) ''normal'' ''x'' = Some (1 / 2)"
    "chassis_val ?cfg (pressed 1 0) ''normal'' ''y'' = Some 0"
    "gimbal_val ?cfg (pressed 1 0) ''normal'' ''pitch'' = Some 0"
    "gimbal_val ?cfg (pressed 1 0) ''normal'' ''yaw'' = Some 0"
    by (simp_all add: eval_defs)
  have op: "throttle_open ?s (at_time 1000000000)"
    by (simp add: throttle_open_Some [of _ 0] lookup_at_time)
  have z: "pitch ?s = 0" "yaw ?s = 0" by (simp_all add: initial_state_def)
  note g = goal_step [OF m en v(1,2) vals_auto_full(3) lookup_at_time(1) [of 1000000000] v(3,4),
      where s = ?s]
  have step: "joyCallback ?cfg ?s (at_time 1000000000) (pressed 1 0) =
     Some ((integrated ?s (at_time 1000000000) 0 0)\<lparr>last_goal_time := Some 1000000000\<rparr>,
           [SendGoal (offset_pose (1 / 2) 0),
            PubJointState (joint_msg (at_time 1000000000) 0 0)])"
    by (simp add: g op z lookup_at_time)
  have d: "classify ?cfg released = Some Disabled" by (simp add: eval_defs)
  have nc: "sendZeroCommand ?cfg (at_time 2000000000) = [PubTwist zero_twist]"
    by (simp add: sendZeroCommand_def default_config_def)
  have edge: "joyCallback ?cfg
       ((integrated ?s (at_time 1000000000) 0 0)\<lparr>last_goal_time := Some 1000000000\<rparr>)
       (at_time 2000000000) released =
     Some ((integrated ?s (at_time 1000000000) 0 0)
             \<lparr>last_goal_time := Some 1000000000, sent_disable_msg := False\<rparr>,
           [PubTwist zero_twist])"
    by (simp add: joyCallback_disabled [OF d] nc)
  from step edge show ?thesis by (rule conjI)
qed

text \<open>
  In mode \<^verbatim>\<open>"auto_control"\<close> the disable edge does request the cancellation, and in every
  mode it leaves the accumulated pitch and yaw and the integrator's timestamp as they were.
\<close>

lemma disable_edge_auto_control:
  assumes "classify cfg joy_msg = Some Disabled" and "sent_disable_msg s"
  shows "\<exists>s' out. joyCallback cfg s e joy_msg = Some (s', out)
       \<and> (control_mode cfg = ''auto_control'' \<longrightarrow> CancelGoalsBefore (now e) \<in> set out)
       \<and> pitch s' = pitch s \<and> yaw s' = yaw s \<and> last_time s' = last_time s"
  using assms by (simp add: joyCallback_disabled sendZeroCommand_def)

text \<open>
  C5. In goal-directed mode an enabled sample whose mapped chassis \<open>x\<close> and \<open>y\<close> are both
  of magnitude at most \<open>0.1\<close> submits no goal, and the disable flag is set.
\<close>

theorem deadzone_no_goal:
  assumes "control_mode cfg \<noteq> ''manual_control''"
    and "enabled_with cfg joy_msg p"
    and "chassis_val cfg joy_msg p ''x'' = Some x"
    and "chassis_val cfg joy_msg p ''y'' = Some y"
    and "\<bar>x\<bar> \<le> 1 / 10" and "\<bar>y\<bar> \<le> 1 / 10"
    and "gimbal_val cfg joy_msg p ''pitch'' = Some vp"
    and "gimbal_val cfg joy_msg p ''yaw'' = Some vy"
  shows "sendGoalPoseAction cfg s e joy_msg p = Some (s\<lparr>sent_disable_msg := True\<rparr>, [])
       \<and> (\<exists>s' out. joyCallback cfg s e joy_msg = Some (s', out)
            \<and> goals out = [] \<and> sent_disable_msg s' \<and> last_goal_time s' = last_goal_time s)"
proof -
  have dz: "in_deadzone x y" using assms(5,6) by (simp add: in_deadzone_def)
  have g: "sendGoalPoseAction cfg s e joy_msg p = Some (s\<lparr>sent_disable_msg := True\<rparr>, [])"
    by (rule sendGoalPoseAction_deadzone [OF assms(3,4) dz])
  have "joyCallback cfg s e joy_msg = sendCmdVelMsg cfg s e joy_msg p"
    by (rule joyCallback_enabled [OF assms(2)])
  also note sendCmdVelMsg_goal [OF assms(1) g assms(7,8)]
  finally show ?thesis using g by simp
qed

theorem deadzone_no_goal_witness:
  "sendGoalPoseAction
     (auto_config\<lparr>axis_chassis_map := [''x'' \<mapsto> 5, ''y'' \<mapsto> 4],
                  scale_chassis_map := (\<lambda>p. [''x'' \<mapsto> 1, ''y'' \<mapsto> 1])\<rparr>)
     (initial_state False) (at_time 0)
     \<lparr>axes = [0, 0, 0, 0, 1 / 20, 1 / 20], buttons = [0, 0, 0, 0, 0, 1]\<rparr> ''normal'' =
       Some ((initial_state False)\<lparr>sent_disable_msg := True\<rparr>, [])
   \<and> (\<exists>s' out. joyCallback
         (auto_config\<lparr>axis_chassis_map := [''x'' \<mapsto> 5, ''y'' \<mapsto> 4],
                      scale_chassis_map := (\<lambda>p. [''x'' \<mapsto> 1, ''y'' \<mapsto> 1])\<rparr>)
         (initial_state False) (at_time 0)
         \<lparr>axes = [0, 0, 0, 0, 1 / 20, 1 / 20], buttons = [0, 0, 0, 0, 0, 1]\<rparr> = Some (s', out)
        \<and> goals out = [] \<and> sent_disable_msg s'
        \<and> last_goal_time s' = last_goal_time (initial_state False))"
proof -
  let ?cfg = "auto_config\<lparr>axis_chassis_map := [''x'' \<mapsto> 5, ''y'' \<mapsto> 4],
                  scale_chassis_map := (\<lambda>p. [''x'' \<mapsto> 1, ''y'' \<mapsto> 1])\<rparr>"
  let ?j = "\<lparr>axes = [0, 0, 0, 0, 1 / 20, 1 / 20], buttons = [0, 0, 0, 0, 0, 1]\<rparr>"
  have m: "control_mode ?cfg \<noteq> ''manual_control''" by (simp add: auto_config_def)
  have en: "enabled_with ?cfg ?j ''normal''" by (simp add: eval_defs auto_config_def)
  have v: "chassis_val ?cfg ?j ''normal'' ''x'' = Some (1 / 20)"
    "chassis_val ?cfg ?j ''normal'' ''y'' = Some (1 / 20)"
    "gimbal_val ?cfg ?j ''normal'' ''pitch'' = Some 0"
    "gimbal_val ?cfg ?j ''normal'' ''yaw'' = Some 0"
    by (simp_all add: eval_defs auto_config_def)
  have b: "\<bar>1 / 20 :: real\<bar> \<le> 1 / 10" by simp
  show ?thesis by (rule deadzone_no_goal [OF m en v(1,2) b b v(3,4)])
qed

text \<open>
  C6. In goal-directed mode, when the transform lookup fails for an enabled sample outside
  the deadzone, the callback still returns: it logs a warning, submits no goal, publishes
  the joint command, and leaves the throttle timestamp unchanged. The state it returns is
  the one any enabled sample leaves, so the next sample is processed as usual.
\<close>

theorem transform_failure_local:
  assumes "control_mode cfg \<noteq> ''manual_control''"
    and "enabled_with cfg joy_msg p"
    and "chassis_val cfg joy_msg p ''x'' = Some x"
    and "chassis_val cfg joy_msg p ''y'' = Some y"
    and "\<not> in_deadzone x y"
    and "lookupTransform e = None"
    and "gimbal_val cfg joy_msg p ''pitch'' = Some vp"
    and "gimbal_val cfg joy_msg p ''yaw'' = Some vy"
  shows "joyCallback cfg s e joy_msg =
           Some (integrated s e vp vy,
                 [LogWarn, PubJointState (joint_msg e (pitch s + vp * elapsed s e)
                                                     (yaw s + vy * elapsed s e))])
       \<and> last_goal_time (integrated s e vp vy) = last_goal_time s"
proof -
  have g: "sendGoalPoseAction cfg s e joy_msg p = Some (s, [LogWarn])"
    by (rule sendGoalPoseAction_no_transform [OF assms(3,4,5,6)])
  have "joyCallback cfg s e joy_msg = sendCmdVelMsg cfg s e joy_msg p"
    by (rule joyCallback_enabled [OF assms(2)])
  also note sendCmdVelMsg_goal [OF assms(1) g assms(7,8)]
  finally show ?thesis by simp
qed

theorem transform_failure_local_witness:
  "joyCallback auto_config (initial_state False) \<lparr>now = 5, now_init = 5, lookupTransform = None\<rparr>
       (pressed 1 0) =
     Some (integrated (initial_state False) \<lparr>now = 5, now_init = 5, lookupTransform = None\<rparr> 0 0,
           [LogWarn, PubJointState (joint_msg \<lparr>now = 5, now_init = 5, lookupTransform = None\<rparr>
              (pitch (initial_state False)
                 + 0 * elapsed (initial_state False) \<lparr>now = 5, now_init = 5, lookupTransform = None\<rparr>)
              (yaw (initial_state False)
                 + 0 * elapsed (initial_state False) \<lparr>now = 5, now_init = 5, lookupTransform = None\<rparr>))])
   \<and> last_goal_time (integrated (initial_state False) \<lparr>now = 5, now_init = 5, lookupTransform = None\<rparr> 0 0)
       = last_goal_time (initial_state False)"
proof -
  have nd: "\<not> in_deadzone (1 / 2) 0" by (simp add: in_deadzone_def)
  have l: "lookupTransform \<lparr>now = 5, now_init = 5, lookupTransform = None\<rparr> = None" by simp
  have v: "chassis_val auto_config (pressed 1 0) ''normal'' ''x'' = Some (1 / 2)"
    "chassis_val auto_config (pressed 1 0) ''normal'' ''y'' = Some 0"
    "gimbal_val auto_config (pressed 1 0) ''normal'' ''pitch'' = Some 0"
    "gimbal_val auto_config (pressed 1 0) ''normal'' ''yaw'' = Some 0"
    using vals_auto [of 1 0] by simp_all
  show ?thesis
    by (rule transform_failure_local [OF mode_auto enabled_auto v(1,2) nd l v(3,4)])
qed

text \<open>
  C10. In goal-directed mode, the first sample since process start that reaches the
  throttle submits no goal: the throttle timestamp is initialised to the current time
  by that attempt, so the elapsed time is zero.
\<close>

theorem first_attempt_never_submits:
  assumes "control_mode cfg \<noteq> ''manual_control''"
    and "run cfg (initial_state b) pre = Some (s, out0)"
    and "\<forall>(e', j') \<in> set pre. \<not> reaches_throttle cfg e' j'"
    and "enabled_with cfg joy_msg p"
    and "chassis_val cfg joy_msg p ''x'' = Some x"
    and "chassis_val cfg joy_msg p ''y'' = Some y"
    and "\<not> in_deadzone x y"
    and "lookupTransform e = Some tf"
    and "gimbal_val cfg joy_msg p ''pitch'' = Some vp"
    and "gimbal_val cfg joy_msg p ''yaw'' = Some vy"
  shows "goals out0 = [] \<and> last_goal_time s = None
       \<and> (\<exists>s' out. joyCallback cfg s e joy_msg = Some (s', out)
            \<and> goals out = [] \<and> last_goal_time s' = Some (now e))"
proof -
  from run_no_reach [OF assms(1,2,3)]
  have pre: "last_goal_time s = None" "goals out0 = []" by (simp_all add: initial_state_def)
  then have cl: "\<not> throttle_open s e" by (simp add: throttle_open_None)
  from goal_step [OF assms(1) assms(4-10), of s] cl pre show ?thesis
    by (simp add: goals_append)
qed

theorem first_attempt_never_submits_witness:
  "goals [] = [] \<and> last_goal_time (initial_state False) = None
   \<and> (\<exists>s' out. joyCallback auto_config (initial_state False) (at_time 1000000000) (pressed 1 0)
          = Some (s', out)
        \<and> goals out = [] \<and> last_goal_time s' = Some (now (at_time 1000000000)))"
  by (rule first_attempt_never_submits [OF mode_auto run_released_auto released_no_reach
        enabled_auto vals_auto_full(1,2,3) lookup_at_time(1) vals_auto_full(4,5)])

text \<open>
  C3, as stated, has two enabled large-displacement samples \<open>0.3\<close> s apart yield two
  submissions. From process start they yield one.
\<close>

theorem two_samples_from_start_one_goal:
  "map_option (length \<circ> goals \<circ> snd)
     (run auto_config (initial_state False)
        [(at_time 0, pressed 1 0), (at_time 300000000, pressed 1 0)]) = Some 1"
proof -
  note g = goal_step [OF mode_auto enabled_auto vals_auto_full(1,2,3) lookup_at_time(1)
                         vals_auto_full(4,5)]
  have c: "\<not> throttle_open (initial_state False) (at_time 0)"
    by (rule throttle_open_None) (simp add: initial_state_def)
  have o: "throttle_open ((integrated (initial_state False) (at_time 0) 0 0)
              \<lparr>last_goal_time := Some 0\<rparr>) (at_time 300000000)"
    by (simp add: throttle_open_Some [of _ 0] lookup_at_time)
  have n: "last_goal_time (initial_state False) = None" by (simp add: initial_state_def)
  show ?thesis
    by (simp add: g c o n lookup_at_time goals_append)
qed

text \<open>
  C3, amended. In goal-directed mode a sample that passes the deadzone and the transform
  lookup submits a goal exactly when the throttle timestamp is set and at least \<open>0.25\<close> s
  old. The first attempt sets the timestamp to its own time without submitting;
  afterwards only a submission changes it. The joint command is published either way.
  Of two such samples \<open>0.1\<close> s apart at most one submits; \<open>0.3\<close> s apart both submit if
  the throttle is open at the first, and exactly one submits from process start.
\<close>

theorem goal_throttle:
  assumes "control_mode cfg \<noteq> ''manual_control''"
    and "enabled_with cfg joy_msg p"
    and "chassis_val cfg joy_msg p ''x'' = Some x"
    and "chassis_val cfg joy_msg p ''y'' = Some y"
    and "\<not> in_deadzone x y"
    and "gimbal_val cfg joy_msg p ''pitch'' = Some vp"
    and "gimbal_val cfg joy_msg p ''yaw'' = Some vy"
    and "lookupTransform e1 = Some tf1"
    and "lookupTransform e2 = Some tf2"
  shows "\<exists>s1 out1 s2 out2.
           joyCallback cfg s e1 joy_msg = Some (s1, out1)
         \<and> joyCallback cfg s1 e2 joy_msg = Some (s2, out2)
         \<and> goals out1 = (if throttle_open s e1 then [tf1 (offset_pose x y)] else [])
         \<and> (throttle_open s e1 \<longleftrightarrow>
              (\<exists>l. last_goal_time s = Some l \<and> 1 / 4 \<le> seconds (now e1 - l)))
         \<and> last_goal_time s1 =
              (if throttle_open s e1 then Some (now e1)
               else if last_goal_time s = None then Some (now e1) else last_goal_time s)
         \<and> length (joint_commands out1) = 1
         \<and> (now e2 = now e1 + 100000000 \<longrightarrow> length (goals (out1 @ out2)) \<le> 1)
         \<and> (now e2 = now e1 + 300000000 \<longrightarrow> throttle_open s e1 \<longrightarrow>
              length (goals (out1 @ out2)) = 2)
         \<and> (now e2 = now e1 + 300000000 \<longrightarrow> last_goal_time s = None \<longrightarrow>
              length (goals (out1 @ out2)) = 1)"
proof -
  define l1 where "l1 = (if throttle_open s e1 then now e1
             else (case last_goal_time s of None \<Rightarrow> now e1 | Some t \<Rightarrow> t))"
  define s1 where "s1 = (integrated s e1 vp vy)\<lparr>last_goal_time := Some l1\<rparr>"
  define o1 where "o1 = (if throttle_open s e1 then [SendGoal (tf1 (offset_pose x y))] else []) @
           [PubJointState (joint_msg e1 (pitch s + vp * elapsed s e1) (yaw s + vy * elapsed s e1))]"
  have st1: "joyCallback cfg s e1 joy_msg = Some (s1, o1)"
    unfolding s1_def o1_def l1_def by (rule goal_step [OF assms(1-5) assms(8) assms(6,7)])
  define l2 where "l2 = (if throttle_open s1 e2 then now e2
             else (case last_goal_time s1 of None \<Rightarrow> now e2 | Some t \<Rightarrow> t))"
  define s2 where "s2 = (integrated s1 e2 vp vy)\<lparr>last_goal_time := Some l2\<rparr>"
  define o2 where "o2 = (if throttle_open s1 e2 then [SendGoal (tf2 (offset_pose x y))] else []) @
           [PubJointState (joint_msg e2 (pitch s1 + vp * elapsed s1 e2) (yaw s1 + vy * elapsed s1 e2))]"
  have st2: "joyCallback cfg s1 e2 joy_msg = Some (s2, o2)"
    unfolding s2_def o2_def l2_def by (rule goal_step [OF assms(1-5) assms(9) assms(6,7)])
  have open2: "throttle_open s1 e2 \<longleftrightarrow> 250000000 \<le> now e2 - l1"
    by (rule throttle_open_Some) (simp add: s1_def)
  have g1: "goals o1 = (if throttle_open s e1 then [tf1 (offset_pose x y)] else [])"
    by (simp add: o1_def goals_append)
  have g2: "goals o2 = (if throttle_open s1 e2 then [tf2 (offset_pose x y)] else [])"
    by (simp add: o2_def goals_append)
  have op: "throttle_open s e1 \<longleftrightarrow> (\<exists>l. last_goal_time s = Some l \<and> 1 / 4 \<le> seconds (now e1 - l))"
    by (cases "last_goal_time s") (simp_all add: throttle_open_def seconds_def)
  have l1: "last_goal_time s1 =
              (if throttle_open s e1 then Some (now e1)
               else if last_goal_time s = None then Some (now e1) else last_goal_time s)"
    by (cases "last_goal_time s") (simp_all add: s1_def l1_def)
  have j1: "length (joint_commands o1) = 1"
    by (simp add: o1_def joint_commands_append)
  have a: "now e2 = now e1 + 100000000 \<longrightarrow> length (goals (o1 @ o2)) \<le> 1"
    unfolding goals_append g1 g2 open2 l1_def by simp
  have b: "now e2 = now e1 + 300000000 \<longrightarrow> throttle_open s e1 \<longrightarrow> length (goals (o1 @ o2)) = 2"
    unfolding goals_append g1 g2 open2 l1_def by simp
  have c: "now e2 = now e1 + 300000000 \<longrightarrow> last_goal_time s = None \<longrightarrow> length (goals (o1 @ o2)) = 1"
    unfolding goals_append g1 g2 open2 l1_def by (simp add: throttle_open_None)
  show ?thesis
  proof (intro exI conjI)
    show "joyCallback cfg s e1 joy_msg = Some (s1, o1)" by (rule st1)
    show "joyCallback cfg s1 e2 joy_msg = Some (s2, o2)" by (rule st2)
  qed (rule g1 op l1 j1 a b c)+
qed

theorem goal_throttle_witness:
  "\<exists>s1 out1 s2 out2.
     joyCallback auto_config ((initial_state False)\<lparr>last_goal_time := Some 0\<rparr>)
         (at_time 1000000000) (pressed 1 0) = Some (s1, out1)
     \<and> joyCallback auto_config s1 (at_time 1300000000) (pressed 1 0) = Some (s2, out2)
     \<and> goals out1 = [id (offset_pose (1 / 2) 0)]
     \<and> last_goal_time s1 = Some 1000000000
     \<and> length (joint_commands out1) = 1
     \<and> length (goals (out1 @ out2)) = 2"
proof -
  let ?s = "(initial_state False)\<lparr>last_goal_time := Some 0\<rparr>"
  have op: "throttle_open ?s (at_time 1000000000)"
    by (simp add: throttle_open_Some [of _ 0] lookup_at_time)
  have t: "now (at_time 1300000000) = now (at_time 1000000000) + 300000000"
    by (simp add: lookup_at_time)
  from goal_throttle [OF mode_auto enabled_auto vals_auto_full(1,2,3) vals_auto_full(4,5)
         lookup_at_time(1) lookup_at_time(1), of ?s 1000000000 1300000000]
  obtain s1 out1 s2 out2 where
    "joyCallback auto_config ?s (at_time 1000000000) (pressed 1 0) = Some (s1, out1)"
    "joyCallback auto_config s1 (at_time 1300000000) (pressed 1 0) = Some (s2, out2)"
    "goals out1 = (if throttle_open ?s (at_time 1000000000) then [id (offset_pose (1 / 2) 0)] else [])"
    "last_goal_time s1 =
       (if throttle_open ?s (at_time 1000000000) then Some (now (at_time 1000000000))
        else if last_goal_time ?s = None then Some (now (at_time 1000000000))
        else last_goal_time ?s)"
    "length (joint_commands out1) = 1"
    "now (at_time 1300000000) = now (at_time 1000000000) + 300000000 \<longrightarrow>
       throttle_open ?s (at_time 1000000000) \<longrightarrow> length (goals (out1 @ out2)) = 2"
    by (elim exE conjE) (rule that)
  with op t show ?thesis by (simp add: lookup_at_time)
qed

text \<open>
  C7, as stated, has the first invocation set the time baseline with no accumulation.
  The baseline is read by the static initialiser and the current time is read after it:
  with the clock a microsecond further and a mapped yaw rate of \<open>0.5\<close>, the first
  invocation moves the accumulated yaw from \<open>0\<close> to \<open>0.0000005\<close>.
\<close>

theorem first_invocation_accumulates:
  "yaw (initial_state False) = 0
   \<and> map_option (yaw \<circ> fst)
        (joyCallback default_config (initial_state False)
           \<lparr>now = 1000, now_init = 0, lookupTransform = Some id\<rparr> (pressed 0 1))
       = Some (1 / 2000000)"
proof -
  let ?e = "\<lparr>now = 1000, now_init = 0, lookupTransform = Some id\<rparr>"
  have tw: "fillCmdVelMsg default_config (pressed 0 1) ''normal'' =
      Some \<lparr>linear_x = 0, linear_y = 0, linear_z = 0,
            angular_x = 0, angular_y = 0, angular_z = 1 / 2\<rparr>"
    unfolding fillCmdVelMsg_def vals_pressed by (simp add: default_config_def)
  have m: "control_mode default_config = ''manual_control''" by (simp add: default_config_def)
  note s0 = sendCmdVelMsg_manual [OF m tw vals_pressed(5,6),
      where s = "initial_state False" and e = ?e]
  have el: "elapsed (initial_state False) ?e = 1 / 1000000"
    by (simp add: elapsed_def seconds_def initial_state_def)
  have z: "yaw (initial_state False) = 0" by (simp add: initial_state_def)
  show ?thesis
    by (simp add: joyCallback_enabled [OF enabled_pressed] s0 el z)
qed

text \<open>
  C7, amended. Each processed enabled sample adds to the accumulated pitch and yaw the
  mapped gimbal rate times \<open>dt\<close>, the time from the clock reading of the previous
  invocation of \<^verbatim>\<open>fillJointStateMsg\<close> to that of this one; at the first invocation \<open>dt\<close> is
  the time from the static initialiser's reading to the current one. With the same yaw
  rate \<open>v\<close> at two successive samples the yaw grows by \<open>v * dt1 + v * dt2\<close> (in real
  arithmetic); the published joint command carries the accumulated values; and a
  Disabled sample leaves the accumulators and the timestamp as they are, so nothing
  resets them.
\<close>

theorem gimbal_integration:
  assumes "valid_axis_map (axis_chassis_map cfg)" and "valid_axis_map (axis_gimbal_map cfg)"
    and "enabled_with cfg j1 p1"
    and "gimbal_val cfg j1 p1 ''pitch'' = Some w1"
    and "gimbal_val cfg j1 p1 ''yaw'' = Some v"
    and "enabled_with cfg j2 p2"
    and "gimbal_val cfg j2 p2 ''pitch'' = Some w2"
    and "gimbal_val cfg j2 p2 ''yaw'' = Some v"
  shows "\<exists>s1 out1 s2 out2.
           joyCallback cfg s e1 j1 = Some (s1, out1)
         \<and> joyCallback cfg s1 e2 j2 = Some (s2, out2)
         \<and> pitch s1 = pitch s + w1 * elapsed s e1
         \<and> yaw s1 = yaw s + v * elapsed s e1
         \<and> last_time s1 = Some (now e1)
         \<and> elapsed s e1 =
             (case last_time s of None \<Rightarrow> seconds (now e1 - now_init e1)
              | Some t0 \<Rightarrow> seconds (now e1 - t0))
         \<and> joint_commands out1 = [joint_msg e1 (pitch s1) (yaw s1)]
         \<and> pitch s2 = pitch s1 + w2 * seconds (now e2 - now e1)
         \<and> yaw s2 = yaw s + (v * elapsed s e1 + v * seconds (now e2 - now e1))
         \<and> (\<forall>d e3. classify cfg d = Some Disabled \<longrightarrow>
               (\<exists>s3 out3. joyCallback cfg s2 e3 d = Some (s3, out3)
                  \<and> pitch s3 = pitch s2 \<and> yaw s3 = yaw s2 \<and> last_time s3 = last_time s2))"
proof -
  obtain s1 out1 where 1: "joyCallback cfg s e1 j1 = Some (s1, out1)"
    and p1: "pitch s1 = pitch s + w1 * elapsed s e1"
    and y1: "yaw s1 = yaw s + v * elapsed s e1"
    and t1: "last_time s1 = Some (now e1)"
    and c1: "joint_commands out1 = [joint_msg e1 (pitch s1) (yaw s1)]"
    using sendCmdVelMsg_gimbal [OF assms(1,2,4,5), of s e1] joyCallback_enabled [OF assms(3), of s e1]
    by auto
  obtain s2 out2 where 2: "joyCallback cfg s1 e2 j2 = Some (s2, out2)"
    and p2: "pitch s2 = pitch s1 + w2 * elapsed s1 e2"
    and y2: "yaw s2 = yaw s1 + v * elapsed s1 e2"
    using sendCmdVelMsg_gimbal [OF assms(1,2,7,8), of s1 e2] joyCallback_enabled [OF assms(6), of s1 e2]
    by auto
  have el2: "elapsed s1 e2 = seconds (now e2 - now e1)" using t1 by (simp add: elapsed_def)
  have el1: "elapsed s e1 =
             (case last_time s of None \<Rightarrow> seconds (now e1 - now_init e1)
              | Some t0 \<Rightarrow> seconds (now e1 - t0))"
    by (simp add: elapsed_def split: option.splits)
  have dis: "\<exists>s3 out3. joyCallback cfg s2 e3 d = Some (s3, out3)
      \<and> pitch s3 = pitch s2 \<and> yaw s3 = yaw s2 \<and> last_time s3 = last_time s2"
    if "classify cfg d = Some Disabled" for d e3
    using that by (simp add: joyCallback_disabled)
  have p2': "pitch s2 = pitch s1 + w2 * seconds (now e2 - now e1)" using p2 el2 by simp
  have y2': "yaw s2 = yaw s + (v * elapsed s e1 + v * seconds (now e2 - now e1))"
    using y1 y2 el2 by (simp add: add.assoc)
  show ?thesis
  proof (intro exI conjI)
    show "joyCallback cfg s e1 j1 = Some (s1, out1)" by (rule 1)
    show "joyCallback cfg s1 e2 j2 = Some (s2, out2)" by (rule 2)
    show "\<forall>d e3. classify cfg d = Some Disabled \<longrightarrow>
               (\<exists>s3 out3. joyCallback cfg s2 e3 d = Some (s3, out3)
                  \<and> pitch s3 = pitch s2 \<and> yaw s3 = yaw s2 \<and> last_time s3 = last_time s2)"
      using dis by blast
  qed (rule p1 y1 t1 c1 p2' y2' el1)+
qed

theorem gimbal_integration_witness:
  "\<exists>s1 out1 s2 out2.
     joyCallback default_config ((initial_state False)\<lparr>last_time := Some 0\<rparr>)
         (at_time 1000000000) (pressed 0 1) = Some (s1, out1)
     \<and> joyCallback default_config s1 (at_time 3000000000) (pressed 0 1) = Some (s2, out2)
     \<and> yaw s1 = 1 / 2
     \<and> joint_commands out1 = [joint_msg (at_time 1000000000) 0 (1 / 2)]
     \<and> yaw s2 = 3 / 2"
proof -
  let ?s = "(initial_state False)\<lparr>last_time := Some 0\<rparr>"
  have v: "gimbal_val default_config (pressed 0 1) ''normal'' ''pitch'' = Some 0"
    "gimbal_val default_config (pressed 0 1) ''normal'' ''yaw'' = Some (1 / 2)"
    using vals_pressed [of 0 1] by simp_all
  have el: "elapsed ?s (at_time 1000000000) = 1"
    "seconds (now (at_time 3000000000) - now (at_time 1000000000)) = 2"
    by (simp_all add: elapsed_def seconds_def lookup_at_time)
  have z: "pitch ?s = 0" "yaw ?s = 0" by (simp_all add: initial_state_def)
  from gimbal_integration [OF valid_default enabled_pressed v enabled_pressed v,
         of ?s "at_time 1000000000" "at_time 3000000000"]
  obtain s1 out1 s2 out2 where
    a: "joyCallback default_config ?s (at_time 1000000000) (pressed 0 1) = Some (s1, out1)" and
    b: "joyCallback default_config s1 (at_time 3000000000) (pressed 0 1) = Some (s2, out2)" and
    c: "pitch s1 = pitch ?s + 0 * elapsed ?s (at_time 1000000000)" and
    d: "yaw s1 = yaw ?s + 1 / 2 * elapsed ?s (at_time 1000000000)" and
    e: "joint_commands out1 = [joint_msg (at_time 1000000000) (pitch s1) (yaw s1)]" and
    f: "yaw s2 = yaw ?s + (1 / 2 * elapsed ?s (at_time 1000000000)
        + 1 / 2 * seconds (now (at_time 3000000000) - now (at_time 1000000000)))"
    by (elim exE conjE) (rule that)
  have p1: "pitch s1 = 0" using c z by simp
  have y1: "yaw s1 = 1 / 2" using d el z by simp
  have y2: "yaw s2 = 3 / 2" using f el z by simp
  from a b y1 e [unfolded p1 y1] y2 show ?thesis by blast
qed

end
